theory Spec2Isabelle
  imports Main "HOL-Library.Sublist"
begin

section \<open>String primitives of the JavaScript runtime\<close>

text \<open>
  JavaScript strings are modelled as \<^typ>\<open>string\<close> (lists of 8-bit characters); the
  scripts only build and compare ASCII text. \<open>''\<newline>''\<close> is the one-character string
  holding a line feed.
\<close>

type_synonym path = string

definition isWhiteSpace :: "char \<Rightarrow> bool" where
  \<comment> \<open>the ASCII part of what \<open>String.prototype.trim\<close> strips\<close>
  "isWhiteSpace c = (c \<in> {CHR '' '', CHR 0x09, CHR 0x0A, CHR 0x0B, CHR 0x0C, CHR 0x0D})"

definition trim :: "string \<Rightarrow> string" where
  "trim s = rev (dropWhile isWhiteSpace (rev (dropWhile isWhiteSpace s)))"

definition toLowerChar :: "char \<Rightarrow> char" where
  "toLowerChar c =
     (let n = (of_char c :: nat) in if 65 \<le> n \<and> n \<le> 90 then char_of (n + 32) else c)"

definition toLowerCase :: "string \<Rightarrow> string" where
  "toLowerCase s = map toLowerChar s"

fun str_includes :: "string \<Rightarrow> string \<Rightarrow> bool" where
  \<comment> \<open>\<open>s.includes(pat)\<close>: \<open>pat\<close> occurs in \<open>s\<close> as a contiguous substring\<close>
  "str_includes [] pat = (pat = [])"
| "str_includes (c # cs) pat = (prefix pat (c # cs) \<or> str_includes cs pat)"

definition endsWith :: "string \<Rightarrow> string \<Rightarrow> bool" where
  "endsWith s suf = (length suf \<le> length s \<and> drop (length s - length suf) s = suf)"

fun split_on :: "char \<Rightarrow> string \<Rightarrow> string list" where
  \<comment> \<open>\<open>s.split(d)\<close> for a one-character separator\<close>
  "split_on d [] = [[]]"
| "split_on d (c # cs) =
     (if c = d then [] # split_on d cs
      else (case split_on d cs of [] \<Rightarrow> [[c]] | l # ls \<Rightarrow> (c # l) # ls))"

fun join_with :: "char \<Rightarrow> string list \<Rightarrow> string" where
  \<comment> \<open>\<open>ls.join(d)\<close>\<close>
  "join_with d [] = []"
| "join_with d [l] = l"
| "join_with d (l # ls) = l @ d # join_with d ls"

definition pathJoin :: "path \<Rightarrow> path \<Rightarrow> path" where
  \<comment> \<open>\<open>path.join(a, b)\<close> on segments that need no normalisation\<close>
  "pathJoin a b = a @ ''/'' @ b"

definition isBlank :: "char \<Rightarrow> bool" where
  \<comment> \<open>the characters at which \<open>/bin/sh\<close> splits a command line into words\<close>
  "isBlank c = (c = CHR '' '' \<or> c = CHR 0x09)"

fun blankFields :: "string \<Rightarrow> string list" where
  \<comment> \<open>the pieces between blanks, empty pieces included\<close>
  "blankFields [] = [[]]"
| "blankFields (c # cs) =
     (if isBlank c then [] # blankFields cs
      else (case blankFields cs of [] \<Rightarrow> [[c]] | l # ls \<Rightarrow> (c # l) # ls))"

definition shellWords :: "string \<Rightarrow> string list" where
  \<comment> \<open>the words \<open>/bin/sh\<close> makes of unquoted text: split at blanks, cut at a word that
      starts with \<open>#\<close> (a comment)\<close>
  "shellWords text =
     takeWhile (\<lambda>w. \<not> prefix ''#'' w) (filter (\<lambda>w. w \<noteq> []) (blankFields text))"



definition digitChar :: "nat \<Rightarrow> char" where
  "digitChar d = ''0123456789'' ! d"

fun digits :: "nat \<Rightarrow> string" where
  \<comment> \<open>the decimal rendering a template literal gives a non-negative integer\<close>
  "digits n = (if n < 10 then [digitChar n] else digits (n div 10) @ [digitChar (n mod 10)])"

declare digits.simps [simp del]

section \<open>The process state: working copy, file system, standard input\<close>

datatype command =
    GitRevParseHead               \<comment> \<open>\<open>git rev-parse --abbrev-ref HEAD\<close>\<close>
  | GitStatusPorcelain            \<comment> \<open>\<open>git status --porcelain\<close>\<close>
  | GitStashPush                  \<comment> \<open>\<open>git stash push -m "feature-flag-manager temporary stash"\<close>\<close>
  | GitFetchOrigin                \<comment> \<open>\<open>git fetch origin\<close>\<close>
  | GitCheckout string            \<comment> \<open>\<open>git checkout <branch>\<close>\<close>
  | GitPullOriginMaster           \<comment> \<open>\<open>git pull origin master\<close>\<close>
  | GitCheckoutNew string         \<comment> \<open>\<open>git checkout -b <branch>\<close>\<close>
  | GitAddAll                     \<comment> \<open>\<open>git add .\<close>\<close>
  | GitCommit string              \<comment> \<open>\<open>git commit -m <message>\<close>, carrying the subject line\<close>
  | GitRemote                     \<comment> \<open>\<open>git remote\<close>\<close>
  | GitPush string string         \<comment> \<open>\<open>git push -u <remote> <branch>\<close>\<close>
  | GhPrCreate string             \<comment> \<open>\<open>gh pr create --title <title> --body ...\<close>\<close>
  | GitStashPop                   \<comment> \<open>\<open>git stash pop\<close>\<close>
  | GitWords "string list"        \<comment> \<open>\<open>git\<close> run with these argument words, when the shell made
                                      more or fewer words of a pasted name than the one expected\<close>

datatype fs_call =
    WriteFile path string         \<comment> \<open>\<open>fs.writeFileSync(path, content)\<close>\<close>
  | MkDir path                    \<comment> \<open>\<open>fs.mkdirSync(path, { recursive: true })\<close>\<close>
  | Rename path path              \<comment> \<open>\<open>fs.renameSync(from, to)\<close>; no script calls it\<close>

record state =
  branch :: string                     \<comment> \<open>the branch the working copy is on\<close>
  uncommitted :: "path list"           \<comment> \<open>paths with uncommitted changes\<close>
  stashes :: "path list list"          \<comment> \<open>the stash stack, newest first\<close>
  remotes :: "string list"             \<comment> \<open>configured remotes\<close>
  files :: "path \<rightharpoonup> string"            \<comment> \<open>regular files and their content\<close>
  dirs :: "path set"                   \<comment> \<open>existing directories\<close>
  stdin :: "(string \<times> string list) list"
                                       \<comment> \<open>what standard input still delivers, one entry per chunk
                                           of data: its first line and the lines after it\<close>
  stdinEnds :: bool                    \<comment> \<open>input ends after the last chunk (a pipe), or stays
                                           open (a terminal)\<close>
  originalBranch :: "string option"    \<comment> \<open>\<open>let originalBranch = null\<close>\<close>
  stashCreated :: bool                 \<comment> \<open>\<open>let stashCreated = false\<close>\<close>
  executed :: "command list"           \<comment> \<open>every command handed to \<open>execSync\<close>, in order\<close>
  asked :: "(string \<times> string) list"    \<comment> \<open>every question answered, with its answer\<close>
  fs_log :: "fs_call list"             \<comment> \<open>every mutating file-system call, in order\<close>
  outcomes :: "(path \<times> bool) list"     \<comment> \<open>what \<open>addFeatureFlagToFile\<close> returned per target\<close>

record env =
  cmd_fails :: "nat \<Rightarrow> command \<Rightarrow> bool"  \<comment> \<open>does the \<open>i\<close>-th \<open>execSync\<close> call, of this command, fail\<close>
  io_fails :: "path \<Rightarrow> bool"            \<comment> \<open>do reads, writes and mkdir on this path raise\<close>
  now :: nat                            \<comment> \<open>\<open>Date.now()\<close>\<close>
  DEV_ROOT :: "string option"           \<comment> \<open>\<open>process.env.DEV_ROOT\<close>\<close>

text \<open>
  A call either returns a value, throws a JavaScript exception, ends the process through
  \<open>process.exit(code)\<close>, or waits for ever on a promise that is never resolved (a question
  asked at a terminal where nothing more is typed).
\<close>

datatype 'a result =
    Return 'a state
  | Throw string state
  | Exit nat state
  | Pending state

fun state_of :: "'a result \<Rightarrow> state" where
  "state_of (Return a s) = s"
| "state_of (Throw e s) = s"
| "state_of (Exit n s) = s"
| "state_of (Pending s) = s"

definition andThen :: "'a result \<Rightarrow> ('a \<Rightarrow> state \<Rightarrow> 'b result) \<Rightarrow> 'b result" where
  \<comment> \<open>sequencing of statements: only a normal return reaches the next statement\<close>
  "andThen r f =
     (case r of Return a s \<Rightarrow> f a s | Throw e s \<Rightarrow> Throw e s
      | Exit n s \<Rightarrow> Exit n s | Pending s \<Rightarrow> Pending s)"

definition tryCatch :: "'a result \<Rightarrow> (string \<Rightarrow> state \<Rightarrow> 'a result) \<Rightarrow> 'a result" where
  \<comment> \<open>\<open>try { r } catch (e) { h }\<close>: only a thrown exception reaches the handler\<close>
  "tryCatch r h =
     (case r of Throw e s \<Rightarrow> h e s | Return a s \<Rightarrow> Return a s
      | Exit n s \<Rightarrow> Exit n s | Pending s \<Rightarrow> Pending s)"

subsection \<open>File system calls\<close>

definition existsSync :: "state \<Rightarrow> path \<Rightarrow> bool" where
  "existsSync s p = (p \<in> dom (files s) \<or> p \<in> dirs s)"

definition readFileSync :: "env \<Rightarrow> path \<Rightarrow> state \<Rightarrow> string result" where
  "readFileSync E p s =
     (if io_fails E p then Throw ''EIO'' s
      else case files s p of
             Some content \<Rightarrow> Return content s
           | None \<Rightarrow> Throw (if p \<in> dirs s then ''EISDIR'' else ''ENOENT'') s)"

definition written :: "path \<Rightarrow> string \<Rightarrow> state \<Rightarrow> state" where
  "written p content s =
     s\<lparr>files := (files s)(p \<mapsto> content),
       uncommitted := List.insert p (uncommitted s),
       fs_log := fs_log s @ [WriteFile p content]\<rparr>"

definition writeFileSync :: "env \<Rightarrow> path \<Rightarrow> string \<Rightarrow> state \<Rightarrow> unit result" where
  "writeFileSync E p content s =
     (if io_fails E p then Throw ''EIO'' s
      else if p \<in> dirs s then Throw ''EISDIR'' s
      else Return () (written p content s))"

definition mkdirSync :: "env \<Rightarrow> path \<Rightarrow> state \<Rightarrow> unit result" where
  "mkdirSync E p s =
     (if io_fails E p then Throw ''EIO'' s
      else if p \<in> dom (files s) then Throw ''EEXIST'' s
      else Return () (s\<lparr>dirs := insert p (dirs s), fs_log := fs_log s @ [MkDir p]\<rparr>))"

section \<open>The config mutator: \<open>addFeatureFlagToFile\<close>\<close>

definition header :: string where
  "header = ''# Feature flags for this environment\<newline>''"

definition addFeatureFlagToFile :: "env \<Rightarrow> path \<Rightarrow> string \<Rightarrow> state \<Rightarrow> bool result" where
  "addFeatureFlagToFile E filePath featureFlagName s =
     (if \<not> existsSync s filePath then Return False s
      else andThen (readFileSync E filePath s) (\<lambda>content s.
        if str_includes content (featureFlagName @ '':'') then Return False s
        else if trim content = [] \<or> \<not> str_includes content '':'' then
          andThen (writeFileSync E filePath (header @ featureFlagName @ '': true\<newline>'') s)
            (\<lambda>_ s. Return True s)
        else
          let content1 = (if \<not> endsWith content ''\<newline>'' then content @ ''\<newline>'' else content);
              content2 = content1 @ featureFlagName @ '': true\<newline>''
          in andThen (writeFileSync E filePath content2 s) (\<lambda>_ s. Return True s)))"

section \<open>External commands\<close>

text \<open>
  What a command that succeeds does to the working copy, and what it prints. Git is an
  external collaborator: only the branch pointer, the uncommitted changes and the stash
  stack are tracked. A command that fails is taken to leave the working copy as it was.
\<close>

fun git_effect :: "command \<Rightarrow> state \<Rightarrow> state" where
  "git_effect GitStashPush s = s\<lparr>stashes := uncommitted s # stashes s, uncommitted := []\<rparr>"
| "git_effect (GitCheckout b) s = s\<lparr>branch := b\<rparr>"
| "git_effect (GitCheckoutNew b) s = s\<lparr>branch := b\<rparr>"
| "git_effect (GitWords ws) s =
     (case ws of
        w1 # w2 # b # rest \<Rightarrow>
          if w1 = ''checkout'' \<and> w2 = ''-b'' then s\<lparr>branch := b\<rparr> else s
      | _ \<Rightarrow> s)"
| "git_effect (GitCommit m) s = s\<lparr>uncommitted := []\<rparr>"
| "git_effect GitStashPop s =
     (case stashes s of [] \<Rightarrow> s
      | entry # rest \<Rightarrow> s\<lparr>stashes := rest, uncommitted := entry @ uncommitted s\<rparr>)"
| "git_effect c s = s"

fun git_output :: "command \<Rightarrow> state \<Rightarrow> string" where
  "git_output GitRevParseHead s = branch s @ ''\<newline>''"
| "git_output GitStatusPorcelain s = concat (map (\<lambda>p. '' M '' @ p @ ''\<newline>'') (uncommitted s))"
| "git_output GitRemote s = concat (map (\<lambda>r. r @ ''\<newline>'') (remotes s))"
| "git_output c s = []"

definition executeCommand :: "env \<Rightarrow> command \<Rightarrow> state \<Rightarrow> string result" where
  \<comment> \<open>\<open>try { return execSync(command) } catch (error) { process.exit(1) }\<close>\<close>
  "executeCommand E c s =
     (let s' = s\<lparr>executed := executed s @ [c]\<rparr> in
      if cmd_fails E (length (executed s)) c then Exit 1 s'
      else Return (git_output c s) (git_effect c s'))"

text \<open>
  The branch name is pasted without quotes into the command line that \<open>execSync\<close> hands
  to \<open>/bin/sh\<close>, so git receives the words the shell makes of it. Of the shell's parsing,
  the splitting at blanks and the comment are modelled; what is proved of the branch name
  is proved for names of letters, digits, underscores, hyphens and dots, which no part of
  the shell's parsing touches. The original branch, pasted in the same way into
  \<open>git checkout\<close>, is a name that git printed and is taken as one word; the commit message
  and the pull request title are pasted between double quotes and taken as they are.
\<close>

definition gitCheckoutNew :: "string \<Rightarrow> command" where
  \<comment> \<open>\<open>`git checkout -b ${branchName}`\<close>\<close>
  "gitCheckoutNew branchName =
     (case shellWords branchName of
        [b] \<Rightarrow> GitCheckoutNew b
      | ws \<Rightarrow> GitWords (''checkout'' # ''-b'' # ws))"

definition gitPush :: "string \<Rightarrow> string \<Rightarrow> command" where
  \<comment> \<open>\<open>`git push -u ${pushRemote} ${branchName}`\<close>; the remote is one of two fixed names\<close>
  "gitPush pushRemote branchName =
     (case shellWords branchName of
        [b] \<Rightarrow> GitPush pushRemote b
      | ws \<Rightarrow> GitWords (''push'' # ''-u'' # pushRemote # ws))"

definition getCurrentBranch :: "env \<Rightarrow> state \<Rightarrow> string option result" where
  "getCurrentBranch E s =
     tryCatch
       (andThen (executeCommand E GitRevParseHead s) (\<lambda>out s. Return (Some (trim out)) s))
       (\<lambda>e s. Return None s)"

definition hasUncommittedChanges :: "env \<Rightarrow> state \<Rightarrow> bool result" where
  "hasUncommittedChanges E s =
     tryCatch
       (andThen (executeCommand E GitStatusPorcelain s) (\<lambda>status s.
          Return (length (trim status) > 0) s))
       (\<lambda>e s. Return False s)"

section \<open>Questions\<close>

text \<open>
  The script runs synchronously between two questions, so data on standard input reaches
  \<open>readline\<close> only while a question is waiting, one chunk at a time. \<open>readline\<close> hands the
  first line of the chunk to the waiting question; the promise it resolves runs its
  continuation only after the whole chunk is processed, so the further lines of the chunk
  find no question waiting and are lost. A terminal delivers each typed line as a chunk of
  its own; a pipe whose writer has finished delivers all its lines as one chunk. When
  input has ended, a waiting question is never answered and the process, with nothing
  left to wait for, ends with status 0; on an open terminal it waits.
\<close>

definition typed :: "string list \<Rightarrow> (string \<times> string list) list" where
  \<comment> \<open>answers typed one by one at a terminal\<close>
  "typed answers = map (\<lambda>l. (l, [])) answers"

definition piped :: "string list \<Rightarrow> (string \<times> string list) list" where
  \<comment> \<open>lines written to a pipe before the reader asks its first question\<close>
  "piped ls = (case ls of [] \<Rightarrow> [] | l # rest \<Rightarrow> [(l, rest)])"

definition askQuestion :: "string \<Rightarrow> state \<Rightarrow> string result" where
  \<comment> \<open>\<open>rl.question(question, answer => resolve(answer.trim()))\<close>\<close>
  "askQuestion question s =
     (case stdin s of
        [] \<Rightarrow> if stdinEnds s then Exit 0 s else Pending s
      | (answer, lost) # rest \<Rightarrow>
          Return (trim answer) (s\<lparr>stdin := rest, asked := asked s @ [(question, trim answer)]\<rparr>))"

definition isYes :: "string \<Rightarrow> bool" where
  \<comment> \<open>the negation of \<open>a.toLowerCase() !== 'y' && a.toLowerCase() !== 'yes'\<close>\<close>
  "isYes a = (toLowerCase a = ''y'' \<or> toLowerCase a = ''yes'')"

definition envTypeQuestion :: string where
  \<open>envTypeQuestion = ''Is this for "prod" or "non-prod" environments? ''\<close>

fun askEnvTypeFrom :: "(string \<times> string list) list \<Rightarrow> state \<Rightarrow> string result" where
  \<comment> \<open>the \<open>while (true)\<close> loop of step 3; the list is the input still to come\<close>
  "askEnvTypeFrom [] s = askQuestion envTypeQuestion s"
| "askEnvTypeFrom (l # ls) s =
     andThen (askQuestion envTypeQuestion s) (\<lambda>envType s.
       if envType = ''prod'' \<or> envType = ''non-prod'' then Return envType s
       else askEnvTypeFrom ls s)"

definition askEnvType :: "state \<Rightarrow> string result" where
  "askEnvType s = askEnvTypeFrom (stdin s) s"

section \<open>The single-project workflow: \<open>main\<close>\<close>

definition envDirsOf :: "string \<Rightarrow> string list" where
  "envDirsOf envType =
     (if envType = ''prod'' then [''prod''] else [''main'', ''ondemand'', ''stage'', ''preprod''])"

definition branchNameOf :: "string \<Rightarrow> string \<Rightarrow> string \<Rightarrow> nat \<Rightarrow> string" where
  \<comment> \<open>\<open>`add-${featureFlagName}-${projectName}-${envType}-${Date.now()}`\<close>\<close>
  "branchNameOf featureFlagName projectName envType t =
     ''add-'' @ featureFlagName @ ''-'' @ projectName @ ''-'' @ envType @ ''-'' @ digits t"

fun updateFiles :: "env \<Rightarrow> path \<Rightarrow> string \<Rightarrow> string list \<Rightarrow> nat \<Rightarrow> state \<Rightarrow> nat result" where
  \<comment> \<open>the \<open>for (const env of envDirs)\<close> loop of step 7; the number is \<open>filesUpdated\<close>\<close>
  "updateFiles E projectPath flag [] filesUpdated s = Return filesUpdated s"
| "updateFiles E projectPath flag (env # envs) filesUpdated s =
     (let envDir = pathJoin projectPath env;
          valuesFile = pathJoin envDir ''values.yaml''
      in andThen (if \<not> existsSync s envDir then mkdirSync E envDir s else Return () s) (\<lambda>_ s.
         andThen (addFeatureFlagToFile E valuesFile flag s) (\<lambda>added s.
           updateFiles E projectPath flag envs (if added then filesUpdated + 1 else filesUpdated)
             (s\<lparr>outcomes := outcomes s @ [(valuesFile, added)]\<rparr>))))"

definition shouldCheckout :: "string option \<Rightarrow> bool" where
  \<comment> \<open>\<open>originalBranch && originalBranch !== 'master'\<close>\<close>
  "shouldCheckout ob = (case ob of None \<Rightarrow> False | Some b \<Rightarrow> b \<noteq> [] \<and> b \<noteq> ''master'')"

definition restoreOriginal :: "env \<Rightarrow> state \<Rightarrow> unit result" where
  \<comment> \<open>the two statements shared by step 10 and by the catch block\<close>
  "restoreOriginal E s =
     andThen
       (case originalBranch s of
          None \<Rightarrow> Return () s
        | Some b \<Rightarrow>
            if shouldCheckout (Some b)
            then andThen (executeCommand E (GitCheckout b) s) (\<lambda>_ s. Return () s)
            else Return () s)
       (\<lambda>_ s. if stashCreated s
              then andThen (executeCommand E GitStashPop s) (\<lambda>_ s. Return () s)
              else Return () s)"

definition pickRemote :: "string \<Rightarrow> string" where
  \<comment> \<open>\<open>out.split('\n').filter(r => r.trim())\<close>, then \<open>includes('ttranupgrade')\<close>\<close>
  "pickRemote out =
     (if ''ttranupgrade'' \<in> set (filter (\<lambda>r. trim r \<noteq> []) (split_on CHR 0x0A out))
      then ''ttranupgrade'' else ''origin'')"

definition publish :: "env \<Rightarrow> string \<Rightarrow> string \<Rightarrow> string \<Rightarrow> string \<Rightarrow> nat \<Rightarrow> state \<Rightarrow> unit result" where
  \<comment> \<open>from the \<open>filesUpdated === 0\<close> test to the end of the try block (steps 8 to 10)\<close>
  "publish E flag project envType branchName filesUpdated s =
     (if filesUpdated = 0 then Exit 1 s
      else
        andThen (executeCommand E GitAddAll s) (\<lambda>_ s.
        andThen (executeCommand E (GitCommit (''Add '' @ flag @ '' feature flag for '' @ project
                   @ '' in '' @ envType @ '' environments'')) s) (\<lambda>_ s.
        andThen (tryCatch
                   (andThen (executeCommand E GitRemote s) (\<lambda>out s. Return (pickRemote out) s))
                   (\<lambda>e s. Return ''origin'' s)) (\<lambda>pushRemote s.
        andThen (executeCommand E (gitPush pushRemote branchName) s) (\<lambda>_ s.
        andThen (executeCommand E (GhPrCreate (''Add '' @ flag @ '' feature flag for '' @ project
                   @ '' ('' @ envType @ '')'')) s) (\<lambda>_ s.
        restoreOriginal E s))))))"

definition workflow :: "env \<Rightarrow> string \<Rightarrow> string \<Rightarrow> string \<Rightarrow> state \<Rightarrow> unit result" where
  \<comment> \<open>steps 4 to 10, after the confirmation\<close>
  "workflow E flag project envType s =
     andThen (executeCommand E GitFetchOrigin s) (\<lambda>_ s.
     andThen (executeCommand E (GitCheckout ''master'') s) (\<lambda>_ s.
     andThen (executeCommand E GitPullOriginMaster s) (\<lambda>_ s.
     let projectPath = ''v2/applications/'' @ project;
         branchName = branchNameOf flag project envType (now E)
     in andThen (executeCommand E (gitCheckoutNew branchName) s) (\<lambda>_ s.
        andThen (updateFiles E projectPath flag (envDirsOf envType) 0 s) (\<lambda>filesUpdated s.
          publish E flag project envType branchName filesUpdated s)))))"

text \<open>
  The try block of \<open>main\<close> up to the confirmation. \<open>process.chdir\<close> raises when the
  template path is not a directory; after it, the relative paths the script uses are
  the keys of \<open>files\<close> and the members of \<open>dirs\<close>. Console output, the listing of the
  available projects (display only) and \<open>rl.close()\<close> change nothing that is observed
  here and are left out.
\<close>

definition tryBody :: "env \<Rightarrow> state \<Rightarrow> unit result" where
  "tryBody E s =
     (case DEV_ROOT E of
        None \<Rightarrow> Exit 1 s
      | Some devRoot \<Rightarrow>
          if devRoot = [] then Exit 1 s
          else if \<not> existsSync s (pathJoin devRoot ''k8s-template'') then Exit 1 s
          else if pathJoin devRoot ''k8s-template'' \<notin> dirs s then Throw ''ENOTDIR'' s
          else
            andThen (getCurrentBranch E s) (\<lambda>current s.
            andThen (hasUncommittedChanges E (s\<lparr>originalBranch := current\<rparr>)) (\<lambda>changes s.
            andThen (if changes
                     then andThen (executeCommand E GitStashPush s)
                            (\<lambda>_ s. Return () (s\<lparr>stashCreated := True\<rparr>))
                     else Return () s) (\<lambda>_ s.
            andThen (askQuestion ''What is the feature flag name to create? '' s)
              (\<lambda>featureFlagName s.
            if featureFlagName = [] then Exit 1 s
            else
              andThen (askQuestion ''What project is this for? '' s) (\<lambda>projectName s.
              if projectName = [] then Exit 1 s
              else
                andThen (if \<not> existsSync s (''v2/applications/'' @ projectName)
                         then andThen (askQuestion ''Would you like to continue anyway? (y/n) '' s)
                                (\<lambda>create s. if \<not> isYes create then Exit 0 s else Return () s)
                         else Return () s) (\<lambda>_ s.
                andThen (askEnvType s) (\<lambda>envType s.
                andThen (askQuestion ''Proceed with these settings? (y/n) '' s) (\<lambda>confirm s.
                if \<not> isYes confirm then Exit 0 s
                else workflow E featureFlagName projectName envType s)))))))))"

definition main :: "env \<Rightarrow> state \<Rightarrow> unit result" where
  \<comment> \<open>\<open>try { ... } catch (error) { try { restore } catch (restoreError) { } process.exit(1) }\<close>\<close>
  "main E s =
     tryCatch (tryBody E (s\<lparr>originalBranch := None, stashCreated := False\<rparr>))
       (\<lambda>error s.
          andThen (tryCatch (restoreOriginal E s) (\<lambda>restoreError s. Return () s))
            (\<lambda>_ s. Exit 1 s))"

section \<open>The bulk script\<close>

definition scriptedInput :: "string \<Rightarrow> string \<Rightarrow> string \<Rightarrow> string \<Rightarrow> string list" where
  \<comment> \<open>the five \<open>child.stdin.write\<close> calls, one line each\<close>
  "scriptedInput operation featureFlagName project envType =
     [operation, featureFlagName, project, envType, ''y'']"

definition runChild :: "env \<Rightarrow> string \<Rightarrow> string \<Rightarrow> string \<Rightarrow> string \<Rightarrow> state \<Rightarrow> unit result" where
  \<comment> \<open>\<open>spawn('node', ['feature-flag-manager.js'])\<close>: a fresh process on the same checkout,
      its input a pipe that is written and ended while the child still starts\<close>
  "runChild E operation featureFlagName project envType s =
     main E (s\<lparr>stdin := piped (scriptedInput operation featureFlagName project envType),
               stdinEnds := True,
               executed := [], asked := [], fs_log := [], outcomes := []\<rparr>)"

fun processProjects ::
  "env \<Rightarrow> string \<Rightarrow> string \<Rightarrow> string \<Rightarrow> string list \<Rightarrow> state \<Rightarrow> (string \<times> unit result) list"
where
  "processProjects E operation featureFlagName envType [] s = []"
| "processProjects E operation featureFlagName envType (project # rest) s =
     (let r = runChild E operation featureFlagName project envType s
      in (project, r) # processProjects E operation featureFlagName envType rest (state_of r))"

definition bulkMain :: "env \<Rightarrow> string list \<Rightarrow> state \<Rightarrow> nat + (string \<times> unit result) list" where
  \<comment> \<open>\<open>Inl code\<close> is \<open>process.exit(code)\<close> from the argument checks\<close>
  "bulkMain E args s =
     (case args of
        operation # featureFlagName # envType # projects \<Rightarrow>
          if operation = [] \<or> featureFlagName = [] \<or> envType = [] \<or> projects = [] then Inl 1
          else if operation \<notin> {''add'', ''remove''} then Inl 1
          else if envType \<notin> {''prod'', ''non-prod''} then Inl 1
          else Inr (processProjects E operation featureFlagName envType projects s)
      | _ \<Rightarrow> Inl 1)"

section \<open>Notions of the specification\<close>

text \<open>
  Modelled from the spec: what it means that a line declares \<open>flagName:\<close>, and the Remove
  operation of the config mutator. The single-project script has no removal code (the
  bulk script and the removal shell script only pass the word \<open>remove\<close> to it), so
  these follow the specification's words: remove the line declaring \<open>flagName:\<close> if
  present; no-op (skip) if absent.
\<close>

definition declaresFlag :: "string \<Rightarrow> string \<Rightarrow> bool" where
  \<comment> \<open>a line declares \<open>flagName:\<close> when, after its indentation, it starts with that text\<close>
  "declaresFlag flagName line = prefix (flagName @ '':'') (dropWhile isWhiteSpace line)"

definition linesOf :: "string \<Rightarrow> string list" where
  "linesOf content = split_on CHR 0x0A content"

fun removeFirst :: "('a \<Rightarrow> bool) \<Rightarrow> 'a list \<Rightarrow> 'a list" where
  "removeFirst P [] = []"
| "removeFirst P (x # xs) = (if P x then xs else x # removeFirst P xs)"

definition removeFlagFromContent :: "string \<Rightarrow> string \<Rightarrow> string" where
  \<comment> \<open>Modelled from the spec: the content without its first line declaring the flag\<close>
  "removeFlagFromContent flagName content =
     join_with CHR 0x0A (removeFirst (declaresFlag flagName) (linesOf content))"

definition removeFeatureFlagFromFile :: "env \<Rightarrow> path \<Rightarrow> string \<Rightarrow> state \<Rightarrow> bool result" where
  \<comment> \<open>Modelled from the spec: Remove on one file, shaped like \<open>addFeatureFlagToFile\<close>\<close>
  "removeFeatureFlagFromFile E filePath flagName s =
     (if \<not> existsSync s filePath then Return False s
      else andThen (readFileSync E filePath s) (\<lambda>content s.
        if list_ex (declaresFlag flagName) (linesOf content)
        then andThen (writeFileSync E filePath (removeFlagFromContent flagName content) s)
               (\<lambda>_ s. Return True s)
        else Return False s))"

fun tempThenRename :: "path \<Rightarrow> fs_call list \<Rightarrow> bool" where
  \<comment> \<open>the calls of a write-temp-then-rename update of \<open>p\<close>\<close>
  "tempThenRename p [WriteFile tmp content, Rename from to] = (from = tmp \<and> to = p \<and> tmp \<noteq> p)"
| "tempThenRename p calls = False"

section \<open>Observations on runs\<close>

fun exitCode :: "'a result \<Rightarrow> nat option" where
  \<comment> \<open>the exit status of the process: 0 when \<open>main\<close> returns; none while it waits\<close>
  "exitCode (Return a s) = Some 0"
| "exitCode (Exit n s) = Some n"
| "exitCode (Throw e s) = None"
| "exitCode (Pending s) = None"

definition clean :: "env \<Rightarrow> state \<Rightarrow> bool" where
  \<comment> \<open>no command executed so far has failed\<close>
  "clean E s = (\<forall>i<length (executed s). \<not> cmd_fails E i (executed s ! i))"

definition failedLast :: "env \<Rightarrow> state \<Rightarrow> bool" where
  \<comment> \<open>the last command executed failed, and no earlier one did\<close>
  "failedLast E s =
     (executed s \<noteq> [] \<and> cmd_fails E (length (executed s) - 1) (last (executed s))
      \<and> (\<forall>i<length (executed s) - 1. \<not> cmd_fails E i (executed s ! i)))"

definition post ::
  "('a \<Rightarrow> state \<Rightarrow> bool) \<Rightarrow> (state \<Rightarrow> bool) \<Rightarrow> (nat \<Rightarrow> state \<Rightarrow> bool) \<Rightarrow> (state \<Rightarrow> bool)
     \<Rightarrow> 'a result \<Rightarrow> bool" where
  \<comment> \<open>one postcondition per way a call can end: return, throw, exit, wait\<close>
  "post Q T X P r =
     (case r of Return a s \<Rightarrow> Q a s | Throw e s \<Rightarrow> T s | Exit n s \<Rightarrow> X n s | Pending s \<Rightarrow> P s)"

definition endedBy :: "env \<Rightarrow> nat \<Rightarrow> state \<Rightarrow> bool" where
  \<comment> \<open>an exit is either unrelated to commands, or code 1 right after the failing command\<close>
  "endedBy E n s = (clean E s \<or> (n = 1 \<and> failedLast E s))"

fun isPublish :: "command \<Rightarrow> bool" where
  \<comment> \<open>the commands that commit, push or open a pull request\<close>
  "isPublish (GitCommit m) = True"
| "isPublish (GitPush r b) = True"
| "isPublish (GhPrCreate t) = True"
| "isPublish (GitWords ws) = (take 1 ws = [''push''])"
| "isPublish c = False"

fun isBranchCreation :: "command \<Rightarrow> bool" where
  "isBranchCreation (GitCheckoutNew b) = True"
| "isBranchCreation (GitWords ws) = (take 2 ws = [''checkout'', ''-b''])"
| "isBranchCreation c = False"




definition published :: "state \<Rightarrow> bool" where
  "published s = list_ex isPublish (executed s)"

definition branched :: "state \<Rightarrow> bool" where
  "branched s = list_ex isBranchCreation (executed s)"

definition unstarted :: "state \<Rightarrow> bool" where
  \<comment> \<open>the run has neither created its branch nor published anything\<close>
  "unstarted s = (\<not> branched s \<and> \<not> published s)"




section \<open>Concrete runs\<close>

definition quietEnv :: env where
  \<comment> \<open>nothing fails; the clock reads 1700000000000\<close>
  "quietEnv = \<lparr>cmd_fails = (\<lambda>i c. False), io_fails = (\<lambda>p. False),
               now = 1700000000000, DEV_ROOT = Some ''/dev''\<rparr>"

definition pullFails :: env where
  \<comment> \<open>as \<open>quietEnv\<close>, but \<open>git pull origin master\<close> fails\<close>
  "pullFails = quietEnv\<lparr>cmd_fails := (\<lambda>i c. c = GitPullOriginMaster)\<rparr>"

definition writeFails :: env where
  \<comment> \<open>as \<open>quietEnv\<close>, but the \<open>main\<close> values file of \<open>svc-a\<close> cannot be read or written\<close>
  "writeFails = quietEnv\<lparr>io_fails := (\<lambda>p. p = ''v2/applications/svc-a/main/values.yaml'')\<rparr>"

definition checkout :: state where
  \<comment> \<open>a checkout on branch \<open>feature\<close> with one edited file and project \<open>svc-a\<close>\<close>
  "checkout =
     \<lparr>branch = ''feature'', uncommitted = [''README.md''], stashes = [],
      remotes = [''origin''],
      files = [''v2/applications/svc-a/main/values.yaml'' \<mapsto> [],
               ''v2/applications/svc-a/stage/values.yaml'' \<mapsto> ''FEATURE_X: true\<newline>''],
      dirs = {''/dev/k8s-template'', ''v2/applications'', ''v2/applications/svc-a'',
              ''v2/applications/svc-a/main'', ''v2/applications/svc-a/stage''},
      stdin = typed [''FEATURE_X'', ''svc-a'', ''non-prod'', ''y''], stdinEnds = False,
      originalBranch = None, stashCreated = False,
      executed = [], asked = [], fs_log = [], outcomes = []\<rparr>"




section \<open>Lemmas on strings and on sequencing\<close>

lemma str_includes_iff: "str_includes s pat \<longleftrightarrow> (\<exists>a b. s = a @ pat @ b)"
proof (induction s)
  case Nil
  then show ?case by auto
next
  case (Cons c cs)
  show ?case
  proof
    assume "str_includes (c # cs) pat"
    then consider "prefix pat (c # cs)" | "str_includes cs pat" by auto
    then show "\<exists>a b. c # cs = a @ pat @ b"
    proof cases
      case 1
      then obtain b where "c # cs = pat @ b" by (auto simp: prefix_def)
      then have "c # cs = [] @ pat @ b" by simp
      then show ?thesis by blast
    next
      case 2
      with Cons.IH obtain a b where "cs = a @ pat @ b" by blast
      then have "c # cs = (c # a) @ pat @ b" by simp
      then show ?thesis by blast
    qed
  next
    assume "\<exists>a b. c # cs = a @ pat @ b"
    then obtain a b where ab: "c # cs = a @ pat @ b" by blast
    show "str_includes (c # cs) pat"
    proof (cases a)
      case Nil
      with ab have "prefix pat (c # cs)" by (simp add: prefix_def)
      then show ?thesis by simp
    next
      case (Cons x a')
      with ab have "cs = a' @ pat @ b" by simp
      with Cons.IH have "str_includes cs pat" by blast
      then show ?thesis by simp
    qed
  qed
qed

lemma str_includes_set: "str_includes s pat \<Longrightarrow> set pat \<subseteq> set s"
  by (auto simp: str_includes_iff)

lemma trim_Nil_iff: "trim s = [] \<longleftrightarrow> (\<forall>c\<in>set s. isWhiteSpace c)"
proof
  assume "trim s = []"
  then have "dropWhile isWhiteSpace (rev (dropWhile isWhiteSpace s)) = []"
    by (simp add: trim_def)
  then have "\<forall>c\<in>set (dropWhile isWhiteSpace s). isWhiteSpace c"
    by simp
  then have "dropWhile isWhiteSpace s = []"
    by (metis hd_dropWhile list.set_sel(1))
  then show "\<forall>c\<in>set s. isWhiteSpace c" by simp
next
  assume "\<forall>c\<in>set s. isWhiteSpace c"
  then have "dropWhile isWhiteSpace s = []" by simp
  then show "trim s = []" by (simp add: trim_def del: dropWhile_eq_Nil_conv)
qed

lemma blank_has_no_colon: "trim content = [] \<Longrightarrow> \<not> str_includes content (flag @ '':'')"
proof
  assume b: "trim content = []" and i: "str_includes content (flag @ '':'')"
  from i have "CHR '':'' \<in> set content" using str_includes_set by fastforce
  with b have "isWhiteSpace CHR '':''" by (simp add: trim_Nil_iff)
  then show False by (simp add: isWhiteSpace_def)
qed

lemma andThen_Return [simp]: "andThen (Return a s) f = f a s"
  by (simp add: andThen_def)
lemma andThen_Throw [simp]: "andThen (Throw e s) f = Throw e s"
  by (simp add: andThen_def)
lemma andThen_Exit [simp]: "andThen (Exit n s) f = Exit n s"
  by (simp add: andThen_def)
lemma andThen_Pending [simp]: "andThen (Pending s) f = Pending s"
  by (simp add: andThen_def)

lemma tryCatch_simps [simp]:
  "tryCatch (Return a s) h = Return a s"
  "tryCatch (Throw e s) h = h e s"
  "tryCatch (Exit n s) h = Exit n s"
  "tryCatch (Pending s) h = Pending s"
  by (simp_all add: tryCatch_def)

lemma andThen_weak_cong: "r = r' \<Longrightarrow> andThen r f = andThen r' f"
  by simp

lemma tryCatch_weak_cong: "r = r' \<Longrightarrow> tryCatch r h = tryCatch r' h"
  by simp

lemmas run_defs = main_def tryBody_def workflow_def publish_def restoreOriginal_def
  getCurrentBranch_def hasUncommittedChanges_def executeCommand_def askQuestion_def
  askEnvType_def existsSync_def pathJoin_def isYes_def toLowerCase_def
  toLowerChar_def trim_def isWhiteSpace_def shouldCheckout_def envDirsOf_def
  branchNameOf_def pickRemote_def addFeatureFlagToFile_def readFileSync_def
  writeFileSync_def mkdirSync_def written_def header_def envTypeQuestion_def
  runChild_def scriptedInput_def typed_def piped_def gitCheckoutNew_def gitPush_def
  shellWords_def isBlank_def

section \<open>Adding a flag to one file\<close>

text \<open>
  C4 (as amended). Where the values file does not exist, \<open>addFeatureFlagToFile\<close> writes
  nothing, leaves every part of the state as it was and returns false, so the target
  is not counted as updated. The header line followed by \<open>flagName: true\<close> is what an
  existing file with blank content is overwritten with, and that call returns true.
\<close>

theorem add_missing_or_blank_file:
  "(\<not> existsSync s filePath \<longrightarrow> addFeatureFlagToFile E filePath flag s = Return False s) \<and>
   (files s filePath = Some content \<and> trim content = [] \<and> \<not> io_fails E filePath \<and> filePath \<notin> dirs s
      \<longrightarrow> addFeatureFlagToFile E filePath flag s
            = Return True (written filePath (header @ flag @ '': true\<newline>'') s))"
proof (intro conjI impI)
  assume "\<not> existsSync s filePath"
  then show "addFeatureFlagToFile E filePath flag s = Return False s"
    by (simp add: addFeatureFlagToFile_def)
next
  assume a: "files s filePath = Some content \<and> trim content = [] \<and> \<not> io_fails E filePath \<and> filePath \<notin> dirs s"
  then have ex: "existsSync s filePath" by (auto simp: existsSync_def)
  from a have nc: "\<not> str_includes content (flag @ '':'')" by (simp add: blank_has_no_colon)
  from a ex nc show "addFeatureFlagToFile E filePath flag s
            = Return True (written filePath (header @ flag @ '': true\<newline>'') s)"
    by (simp add: addFeatureFlagToFile_def readFileSync_def writeFileSync_def)
qed

text \<open>
  The claim as stated fails on a checkout whose \<open>ondemand\<close> directory has no values file:
  the call returns false and the file is still missing afterwards.
\<close>

theorem add_missing_file_counterexample:
  "addFeatureFlagToFile quietEnv ''v2/applications/svc-a/ondemand/values.yaml'' ''FEATURE_X'' checkout
     = Return False checkout
   \<and> files checkout ''v2/applications/svc-a/ondemand/values.yaml'' = None"
  by (simp add: addFeatureFlagToFile_def existsSync_def checkout_def)

theorem add_missing_or_blank_file_witness:
  "\<not> existsSync checkout ''v2/applications/svc-a/ondemand/values.yaml''
   \<and> addFeatureFlagToFile quietEnv ''v2/applications/svc-a/ondemand/values.yaml'' ''FEATURE_X'' checkout
       = Return False checkout
   \<and> files checkout ''v2/applications/svc-a/main/values.yaml'' = Some []
   \<and> addFeatureFlagToFile quietEnv ''v2/applications/svc-a/main/values.yaml'' ''FEATURE_X'' checkout
       = Return True (written ''v2/applications/svc-a/main/values.yaml''
           ''# Feature flags for this environment\<newline>FEATURE_X: true\<newline>'' checkout)"
  using add_missing_or_blank_file [where s = checkout and filePath = "''v2/applications/svc-a/ondemand/values.yaml''" and E = quietEnv and flag = "''FEATURE_X''"]
    add_missing_or_blank_file [where s = checkout and filePath = "''v2/applications/svc-a/main/values.yaml''" and content = "[]" and E = quietEnv and flag = "''FEATURE_X''"]
  by (simp add: existsSync_def checkout_def quietEnv_def trim_def header_def)


text \<open>
  C5. The skip test is \<open>content.includes(`${featureFlagName}:`)\<close>, a substring test on the
  whole content. On a file whose only line is \<open>MY_FLAG: true\<close> a request to add \<open>FLAG\<close>
  is skipped as already present, although no line of the file declares \<open>FLAG:\<close>.
\<close>

theorem add_skips_flag_inside_longer_key:
  "addFeatureFlagToFile quietEnv ''stage/values.yaml'' ''FLAG''
       (checkout\<lparr>files := [''stage/values.yaml'' \<mapsto> ''MY_FLAG: true\<newline>'']\<rparr>)
     = Return False (checkout\<lparr>files := [''stage/values.yaml'' \<mapsto> ''MY_FLAG: true\<newline>'']\<rparr>)
   \<and> linesOf ''MY_FLAG: true\<newline>'' = [''MY_FLAG: true'', []]
   \<and> filter (declaresFlag ''FLAG'') (linesOf ''MY_FLAG: true\<newline>'') = []"
  by (simp add: addFeatureFlagToFile_def existsSync_def readFileSync_def quietEnv_def
      linesOf_def declaresFlag_def isWhiteSpace_def)

text \<open>
  C6 (as amended). On an existing file that does not contain \<open>flagName:\<close>, whose content
  is not blank and holds a colon, the written content is the old content, a line feed
  if the old content did not end in one, and the line \<open>flagName: true\<close>: nothing
  before the appended text changes.
\<close>

theorem add_appends_only:
  assumes "files s filePath = Some content" and "filePath \<notin> dirs s" and "\<not> io_fails E filePath"
    and "\<not> str_includes content (flag @ '':'')"
    and "trim content \<noteq> []" and "str_includes content '':''"
  shows "addFeatureFlagToFile E filePath flag s
         = Return True (written filePath
             (content @ (if endsWith content ''\<newline>'' then [] else ''\<newline>'') @ flag @ '': true\<newline>'') s)"
proof -
  from assms(1) have ex: "existsSync s filePath" by (auto simp: existsSync_def)
  from assms(1,3) have rd: "readFileSync E filePath s = Return content s"
    by (simp add: readFileSync_def)
  show ?thesis
  proof (cases "endsWith content ''\<newline>''")
    case True
    with ex rd assms show ?thesis
      by (simp add: addFeatureFlagToFile_def writeFileSync_def)
  next
    case False
    with ex rd assms show ?thesis
      by (simp add: addFeatureFlagToFile_def writeFileSync_def)
  qed
qed

text \<open>
  The claim as stated fails on a file that holds only a comment line without a colon:
  the file is overwritten with the header and the flag line, and the comment is gone.
\<close>

theorem add_replaces_comment_only_file_counterexample:
  "files (state_of (addFeatureFlagToFile quietEnv ''stage/values.yaml'' ''FEATURE_X''
       (checkout\<lparr>files := [''stage/values.yaml'' \<mapsto> ''# staging overrides\<newline>'']\<rparr>)))
     ''stage/values.yaml''
     = Some ''# Feature flags for this environment\<newline>FEATURE_X: true\<newline>''
   \<and> ''# staging overrides'' \<in> set (linesOf ''# staging overrides\<newline>'')
   \<and> ''# staging overrides''
       \<notin> set (linesOf ''# Feature flags for this environment\<newline>FEATURE_X: true\<newline>'')"
  by (simp add: addFeatureFlagToFile_def existsSync_def readFileSync_def writeFileSync_def
      written_def quietEnv_def checkout_def linesOf_def header_def trim_def isWhiteSpace_def)

theorem add_appends_only_witness:
  "addFeatureFlagToFile quietEnv ''stage/values.yaml'' ''FEATURE_X''
       (checkout\<lparr>files := [''stage/values.yaml'' \<mapsto> ''A: 1'']\<rparr>)
     = Return True (written ''stage/values.yaml'' ''A: 1\<newline>FEATURE_X: true\<newline>''
         (checkout\<lparr>files := [''stage/values.yaml'' \<mapsto> ''A: 1'']\<rparr>))"
  using add_appends_only [where s = "checkout\<lparr>files := [''stage/values.yaml'' \<mapsto> ''A: 1'']\<rparr>"
      and filePath = "''stage/values.yaml''" and content = "''A: 1''" and E = quietEnv
      and flag = "''FEATURE_X''"]
  by (simp add: checkout_def quietEnv_def trim_def isWhiteSpace_def endsWith_def)

text \<open>
  C7 (as amended). A call of \<open>addFeatureFlagToFile\<close> makes at most one mutating file-system
  call: a direct \<open>writeFileSync\<close> of the whole new content to the values file itself.
\<close>

theorem add_writes_in_place:
  "fs_log (state_of (addFeatureFlagToFile E filePath flag s)) = fs_log s
   \<or> (\<exists>content. fs_log (state_of (addFeatureFlagToFile E filePath flag s))
                    = fs_log s @ [WriteFile filePath content]
                \<and> files (state_of (addFeatureFlagToFile E filePath flag s)) filePath = Some content)"
  by (auto simp: addFeatureFlagToFile_def readFileSync_def writeFileSync_def written_def Let_def
      split: option.splits)

text \<open>
  The claim as stated fails on every write: the only call is a write to the values file,
  not a write to a temporary file followed by a rename.
\<close>

theorem add_writes_directly_counterexample:
  "fs_log (state_of (addFeatureFlagToFile quietEnv ''v2/applications/svc-a/main/values.yaml''
       ''FEATURE_X'' checkout))
     = [WriteFile ''v2/applications/svc-a/main/values.yaml''
          ''# Feature flags for this environment\<newline>FEATURE_X: true\<newline>'']
   \<and> \<not> tempThenRename ''v2/applications/svc-a/main/values.yaml''
         (fs_log (state_of (addFeatureFlagToFile quietEnv
            ''v2/applications/svc-a/main/values.yaml'' ''FEATURE_X'' checkout)))"
  by (simp add: addFeatureFlagToFile_def existsSync_def readFileSync_def writeFileSync_def
      written_def quietEnv_def checkout_def header_def trim_def)

section \<open>Removing after adding\<close>

lemma split_on_not_Nil [simp]: "split_on d s \<noteq> []"
  by (induction s) (auto split: list.splits)

lemma split_on_append: "split_on d (xs @ d # ys) = split_on d xs @ split_on d ys"
proof (induction xs)
  case Nil
  then show ?case by simp
next
  case (Cons x xs)
  then show ?case
    by (cases "split_on d xs") (auto split: list.splits)
qed

lemma split_on_no_sep: "d \<notin> set s \<Longrightarrow> split_on d s = [s]"
  by (induction s) auto

lemma join_split: "join_with d (split_on d s) = s"
proof (induction s)
  case Nil
  then show ?case by simp
next
  case (Cons c cs)
  then show ?case
    by (cases "split_on d cs"; cases "tl (split_on d cs)") (auto split: list.splits)
qed

lemma split_on_hd_prefix: "split_on d s = h # t \<Longrightarrow> \<exists>b. s = h @ b"
proof (induction s arbitrary: h t)
  case Nil
  then show ?case by simp
next
  case (Cons c cs)
  show ?case
  proof (cases "c = d")
    case True
    with Cons.prems show ?thesis by auto
  next
    case False
    obtain h' t' where ht: "split_on d cs = h' # t'" by (cases "split_on d cs") auto
    with Cons.IH obtain b where "cs = h' @ b" by blast
    moreover from ht False Cons.prems have "h = c # h'" by auto
    ultimately have "c # cs = h @ b" by simp
    then show ?thesis by blast
  qed
qed

lemma split_on_piece: "l \<in> set (split_on d s) \<Longrightarrow> \<exists>a b. s = a @ l @ b"
proof (induction s arbitrary: l)
  case Nil
  then show ?case by simp
next
  case (Cons c cs)
  show ?case
  proof (cases "c = d")
    case True
    with Cons.prems have "l = [] \<or> l \<in> set (split_on d cs)" by auto
    then show ?thesis
    proof
      assume "l = []"
      then have "c # cs = [] @ l @ (c # cs)" by simp
      then show ?thesis by blast
    next
      assume "l \<in> set (split_on d cs)"
      with Cons.IH obtain a b where "cs = a @ l @ b" by blast
      then have "c # cs = (c # a) @ l @ b" by simp
      then show ?thesis by blast
    qed
  next
    case False
    obtain h t where ht: "split_on d cs = h # t" by (cases "split_on d cs") auto
    with False Cons.prems have "l = c # h \<or> l \<in> set t" by auto
    then show ?thesis
    proof
      assume l: "l = c # h"
      from ht obtain b' where "cs = h @ b'" using split_on_hd_prefix by blast
      with l have "c # cs = [] @ l @ b'" by simp
      then show ?thesis by blast
    next
      assume "l \<in> set t"
      with ht have "l \<in> set (split_on d cs)" by simp
      with Cons.IH obtain a b where "cs = a @ l @ b" by blast
      then have "c # cs = (c # a) @ l @ b" by simp
      then show ?thesis by blast
    qed
  qed
qed

lemma removeFirst_append:
  "\<forall>x\<in>set xs. \<not> P x \<Longrightarrow> P y \<Longrightarrow> removeFirst P (xs @ y # ys) = xs @ ys"
  by (induction xs) auto

lemma removeFirst_none: "\<forall>x\<in>set xs. \<not> P x \<Longrightarrow> removeFirst P xs = xs"
  by (induction xs) auto

lemma no_line_declares:
  assumes "\<not> str_includes content (flag @ '':'')"
  shows "\<forall>l\<in>set (linesOf content). \<not> declaresFlag flag l"
proof (intro ballI notI)
  fix l
  assume l: "l \<in> set (linesOf content)" and d: "declaresFlag flag l"
  from l obtain a b where ab: "content = a @ l @ b"
    unfolding linesOf_def using split_on_piece by blast
  from d obtain r where r: "dropWhile isWhiteSpace l = (flag @ '':'') @ r"
    by (auto simp: declaresFlag_def prefix_def)
  have "l = takeWhile isWhiteSpace l @ dropWhile isWhiteSpace l" by simp
  with r have "l = takeWhile isWhiteSpace l @ (flag @ '':'') @ r" by simp
  with ab have "content = (a @ takeWhile isWhiteSpace l) @ (flag @ '':'') @ (r @ b)"
    by (metis append.assoc)
  then have "str_includes content (flag @ '':'')"
    unfolding str_includes_iff by blast
  with assms show False by simp
qed

lemma str_includes_prefix:
  "str_includes a pat \<Longrightarrow> str_includes (a @ b) pat"
  unfolding str_includes_iff by (metis append.assoc)

lemma lines_of_added:
  assumes nl: "CHR 0x0A \<notin> set flag"
  shows "linesOf ((c1 @ ''\<newline>'') @ flag @ '': true\<newline>'')
         = split_on CHR 0x0A c1 @ (flag @ '': true'') # [[]]"
proof -
  let ?fl = "flag @ '': true''"
  have eq: "(c1 @ ''\<newline>'') @ flag @ '': true\<newline>'' = c1 @ CHR 0x0A # (?fl @ CHR 0x0A # [])"
    by simp
  have "CHR 0x0A \<notin> set ?fl" using nl by simp
  then have sfl: "split_on CHR 0x0A ?fl = [?fl]" by (rule split_on_no_sep)
  show ?thesis
    unfolding linesOf_def eq split_on_append sfl by simp
qed

lemma remove_appended_line:
  assumes ni: "\<not> str_includes c1 (flag @ '':'')"
    and nl: "CHR 0x0A \<notin> set flag" and ne: "flag \<noteq> []" and nw: "\<not> isWhiteSpace (hd flag)"
  shows "removeFlagFromContent flag ((c1 @ ''\<newline>'') @ flag @ '': true\<newline>'') = c1 @ ''\<newline>''"
proof -
  let ?fl = "flag @ '': true''"
  have lines: "linesOf ((c1 @ ''\<newline>'') @ flag @ '': true\<newline>'')
        = split_on CHR 0x0A c1 @ ?fl # [[]]"
    using nl by (rule lines_of_added)
  have none: "\<forall>l\<in>set (split_on CHR 0x0A c1). \<not> declaresFlag flag l"
    using no_line_declares [OF ni] by (simp add: linesOf_def)
  from ne nw have "dropWhile isWhiteSpace ?fl = ?fl" by (cases flag) auto
  then have decl: "declaresFlag flag ?fl" by (simp add: declaresFlag_def prefix_def)
  have "removeFirst (declaresFlag flag) (split_on CHR 0x0A c1 @ ?fl # [[]])
        = split_on CHR 0x0A c1 @ [[]]"
    using none decl by (rule removeFirst_append)
  also have "\<dots> = split_on CHR 0x0A (c1 @ CHR 0x0A # [])"
    by (simp add: split_on_append)
  finally show ?thesis
    unfolding removeFlagFromContent_def lines by (simp add: join_split)
qed

lemma endsWith_newline: "endsWith c ''\<newline>'' \<Longrightarrow> \<exists>c1. c = c1 @ ''\<newline>''"
proof -
  assume "endsWith c ''\<newline>''"
  then have "c = take (length c - 1) c @ ''\<newline>''"
    by (metis One_nat_def append_take_drop_id endsWith_def length_Cons list.size(3))
  then show ?thesis by blast
qed

text \<open>
  C2 (as amended). On a file that is not in the created-header case and does not contain
  \<open>flagName:\<close>, Add followed by Remove leaves the old content when it ended in a line
  feed, and the old content followed by one line feed when it did not; Remove on the
  file before the Add is a skip. Flag names come trimmed from the prompt: non-empty, one
  line, no leading white space.
\<close>

theorem remove_after_add:
  assumes f: "files s filePath = Some content" and d: "filePath \<notin> dirs s"
    and io: "\<not> io_fails E filePath"
    and ni: "\<not> str_includes content (flag @ '':'')"
    and nb: "trim content \<noteq> []" and col: "str_includes content '':''"
    and nl: "CHR 0x0A \<notin> set flag" and ne: "flag \<noteq> []" and nw: "\<not> isWhiteSpace (hd flag)"
  shows "(\<exists>s1 s2. addFeatureFlagToFile E filePath flag s = Return True s1
           \<and> removeFeatureFlagFromFile E filePath flag s1 = Return True s2
           \<and> files s2 filePath
               = Some (if endsWith content ''\<newline>'' then content else content @ ''\<newline>''))
         \<and> removeFeatureFlagFromFile E filePath flag s = Return False s"
proof -
  define c' where "c' = (if endsWith content ''\<newline>'' then content else content @ ''\<newline>'')"
  define added where "added = c' @ flag @ '': true\<newline>''"
  define s1 where "s1 = written filePath added s"
  have ex: "existsSync s filePath" using f by (auto simp: existsSync_def)
  have rd: "readFileSync E filePath s = Return content s"
    using f io by (simp add: readFileSync_def)
  have add: "addFeatureFlagToFile E filePath flag s = Return True s1"
    using ex rd ni nb col d io
    by (simp add: addFeatureFlagToFile_def writeFileSync_def s1_def added_def c'_def)
  have "\<exists>c1. c' = c1 @ ''\<newline>''"
  proof (cases "endsWith content ''\<newline>''")
    case True
    then show ?thesis using endsWith_newline by (simp add: c'_def)
  next
    case False
    then show ?thesis by (simp add: c'_def)
  qed
  then obtain c1 where c1: "c' = c1 @ ''\<newline>''" by blast
  have ni1: "\<not> str_includes c1 (flag @ '':'')"
  proof
    assume a: "str_includes c1 (flag @ '':'')"
    show False
    proof (cases "endsWith content ''\<newline>''")
      case True
      with c1 have "content = c1 @ ''\<newline>''" by (simp add: c'_def)
      with a ni show False using str_includes_prefix by blast
    next
      case False
      with c1 have "content = c1" by (simp add: c'_def)
      with a ni show False by simp
    qed
  qed
  have rem: "removeFlagFromContent flag added = c'"
    unfolding added_def c1 using ni1 nl ne nw by (rule remove_appended_line)
  have s1f: "files s1 filePath = Some added" and s1d: "dirs s1 = dirs s"
    by (simp_all add: s1_def written_def)
  have ex1: "existsSync s1 filePath" using s1f by (auto simp: existsSync_def)
  have rd1: "readFileSync E filePath s1 = Return added s1"
    using s1f io by (simp add: readFileSync_def)
  have "declaresFlag flag (flag @ '': true'')"
    using ne nw by (cases flag) (auto simp: declaresFlag_def)
  moreover have "flag @ '': true'' \<in> set (linesOf added)"
    unfolding added_def c1 lines_of_added [OF nl] by simp
  ultimately have present: "list_ex (declaresFlag flag) (linesOf added)"
    by (auto simp: list_ex_iff)
  define s2 where "s2 = written filePath c' s1"
  have "removeFeatureFlagFromFile E filePath flag s1 = Return True s2"
    using ex1 rd1 present rem io d s1d
    by (simp add: removeFeatureFlagFromFile_def writeFileSync_def s2_def)
  moreover have "files s2 filePath = Some c'" by (simp add: s2_def written_def)
  ultimately have roundtrip: "\<exists>s1 s2. addFeatureFlagToFile E filePath flag s = Return True s1
           \<and> removeFeatureFlagFromFile E filePath flag s1 = Return True s2
           \<and> files s2 filePath
               = Some (if endsWith content ''\<newline>'' then content else content @ ''\<newline>'')"
    using add unfolding c'_def by blast
  have "\<not> list_ex (declaresFlag flag) (linesOf content)"
    using no_line_declares [OF ni] by (simp add: list_ex_iff)
  then have "removeFeatureFlagFromFile E filePath flag s = Return False s"
    using ex rd by (simp add: removeFeatureFlagFromFile_def)
  with roundtrip show ?thesis by blast
qed

text \<open>
  The claim as stated fails on content without a final line feed: Add appends one before
  the flag line, and Remove leaves it behind.
\<close>

theorem remove_after_add_counterexample:
  "addFeatureFlagToFile quietEnv ''stage/values.yaml'' ''FEATURE_X'' (checkout\<lparr>files := [''stage/values.yaml'' \<mapsto> ''A: 1'']\<rparr>)
     = Return True (written ''stage/values.yaml'' ''A: 1\<newline>FEATURE_X: true\<newline>'' (checkout\<lparr>files := [''stage/values.yaml'' \<mapsto> ''A: 1'']\<rparr>))
   \<and> files (state_of (removeFeatureFlagFromFile quietEnv ''stage/values.yaml'' ''FEATURE_X''
         (written ''stage/values.yaml'' ''A: 1\<newline>FEATURE_X: true\<newline>'' (checkout\<lparr>files := [''stage/values.yaml'' \<mapsto> ''A: 1'']\<rparr>))))
       ''stage/values.yaml'' = Some ''A: 1\<newline>''
   \<and> files (checkout\<lparr>files := [''stage/values.yaml'' \<mapsto> ''A: 1'']\<rparr>) ''stage/values.yaml'' = Some ''A: 1''"
  by (simp add: addFeatureFlagToFile_def removeFeatureFlagFromFile_def existsSync_def
      readFileSync_def writeFileSync_def written_def quietEnv_def checkout_def
      trim_def isWhiteSpace_def endsWith_def linesOf_def declaresFlag_def
      removeFlagFromContent_def)

theorem remove_after_add_witness:
  "(\<exists>s1 s2. addFeatureFlagToFile quietEnv ''stage/values.yaml'' ''FEATURE_X''
                (checkout\<lparr>files := [''stage/values.yaml'' \<mapsto> ''A: 1\<newline>'']\<rparr>) = Return True s1
           \<and> removeFeatureFlagFromFile quietEnv ''stage/values.yaml'' ''FEATURE_X'' s1 = Return True s2
           \<and> files s2 ''stage/values.yaml'' = Some ''A: 1\<newline>'')
   \<and> removeFeatureFlagFromFile quietEnv ''stage/values.yaml'' ''FEATURE_X''
         (checkout\<lparr>files := [''stage/values.yaml'' \<mapsto> ''A: 1\<newline>'']\<rparr>)
       = Return False (checkout\<lparr>files := [''stage/values.yaml'' \<mapsto> ''A: 1\<newline>'']\<rparr>)"
  using remove_after_add [where s = "checkout\<lparr>files := [''stage/values.yaml'' \<mapsto> ''A: 1\<newline>'']\<rparr>"
      and filePath = "''stage/values.yaml''" and content = "''A: 1\<newline>''" and E = quietEnv
      and flag = "''FEATURE_X''"]
  by (simp add: checkout_def quietEnv_def trim_def isWhiteSpace_def endsWith_def)

section \<open>Rules for postconditions\<close>

lemma post_simps [simp]:
  "post Q T X P (Return a s) = Q a s"
  "post Q T X P (Throw e s) = T s"
  "post Q T X P (Exit n s) = X n s"
  "post Q T X P (Pending s) = P s"
  by (simp_all add: post_def)

lemma post_andThen:
  "post (\<lambda>a s. post Q T X P (f a s)) T X P r \<Longrightarrow> post Q T X P (andThen r f)"
  by (cases r) simp_all

lemma post_tryCatch:
  "post Q (\<lambda>s. \<forall>e. post Q T X P (h e s)) X P r \<Longrightarrow> post Q T X P (tryCatch r h)"
  by (cases r) simp_all


lemma post_executeCommand:
  "(cmd_fails E (length (executed s)) c \<Longrightarrow> X 1 (s\<lparr>executed := executed s @ [c]\<rparr>))
   \<Longrightarrow> (\<not> cmd_fails E (length (executed s)) c
        \<Longrightarrow> Q (git_output c s) (git_effect c (s\<lparr>executed := executed s @ [c]\<rparr>)))
   \<Longrightarrow> post Q T X P (executeCommand E c s)"
  by (simp add: executeCommand_def Let_def)

lemma post_askQuestion:
  "(stdin s = [] \<Longrightarrow> stdinEnds s \<Longrightarrow> X 0 s)
   \<Longrightarrow> (stdin s = [] \<Longrightarrow> \<not> stdinEnds s \<Longrightarrow> P s)
   \<Longrightarrow> (\<And>a lost rest. stdin s = (a, lost) # rest
        \<Longrightarrow> Q (trim a) (s\<lparr>stdin := rest, asked := asked s @ [(q, trim a)]\<rparr>))
   \<Longrightarrow> post Q T X P (askQuestion q s)"
  by (cases "stdin s") (auto simp: askQuestion_def)

lemma executed_git_effect [simp]: "executed (git_effect c s) = executed s"
  by (cases c) (simp_all split: list.splits)

lemma outcomes_git_effect [simp]: "outcomes (git_effect c s) = outcomes s"
  by (cases c) (simp_all split: list.splits)

section \<open>A failing command ends the process\<close>

lemma clean_executed: "executed s' = executed s \<Longrightarrow> clean E s' = clean E s"
  by (simp add: clean_def)

lemma clean_snoc:
  "clean E s \<Longrightarrow> \<not> cmd_fails E (length (executed s)) c
     \<Longrightarrow> clean E (git_effect c (s\<lparr>executed := executed s @ [c]\<rparr>))"
  by (auto simp: clean_def nth_append less_Suc_eq)

lemma failedLast_snoc:
  "clean E s \<Longrightarrow> cmd_fails E (length (executed s)) c
     \<Longrightarrow> failedLast E (s\<lparr>executed := executed s @ [c]\<rparr>)"
  by (auto simp: clean_def failedLast_def nth_append)

lemma cmd_executeCommand:
  "clean E s \<Longrightarrow> post (\<lambda>a. clean E) (clean E) (endedBy E) (clean E) (executeCommand E c s)"
  by (rule post_executeCommand) (simp_all add: endedBy_def clean_snoc failedLast_snoc)

lemma cmd_askQuestion:
  "clean E s \<Longrightarrow> post (\<lambda>a. clean E) (clean E) (endedBy E) (clean E) (askQuestion q s)"
  by (rule post_askQuestion) (simp_all add: clean_def endedBy_def)

lemma cmd_andThen:
  "post (\<lambda>a. clean E) (clean E) (endedBy E) (clean E) r
   \<Longrightarrow> (\<And>a s. clean E s \<Longrightarrow> post (\<lambda>a. clean E) (clean E) (endedBy E) (clean E) (f a s))
   \<Longrightarrow> post (\<lambda>a. clean E) (clean E) (endedBy E) (clean E) (andThen r f)"
  by (cases r) simp_all

lemma cmd_tryCatch:
  "post (\<lambda>a. clean E) (clean E) (endedBy E) (clean E) r
   \<Longrightarrow> (\<And>e s. clean E s \<Longrightarrow> post (\<lambda>a. clean E) (clean E) (endedBy E) (clean E) (h e s))
   \<Longrightarrow> post (\<lambda>a. clean E) (clean E) (endedBy E) (clean E) (tryCatch r h)"
  by (cases r) simp_all

lemma cmd_fs:
  assumes "clean E s"
  shows "post (\<lambda>a. clean E) (clean E) (endedBy E) (clean E) (readFileSync E p s)"
    and "post (\<lambda>a. clean E) (clean E) (endedBy E) (clean E) (writeFileSync E p c s)"
    and "post (\<lambda>a. clean E) (clean E) (endedBy E) (clean E) (mkdirSync E p s)"
  using assms
  by (auto simp: readFileSync_def writeFileSync_def mkdirSync_def written_def clean_def
      split: option.splits)

lemma cmd_addFeatureFlagToFile:
  "clean E s \<Longrightarrow> post (\<lambda>a. clean E) (clean E) (endedBy E) (clean E) (addFeatureFlagToFile E p flag s)"
  unfolding addFeatureFlagToFile_def
  by (auto intro!: cmd_andThen cmd_fs simp: Let_def)

lemma cmd_updateFiles:
  "clean E s \<Longrightarrow> post (\<lambda>a. clean E) (clean E) (endedBy E) (clean E)
      (updateFiles E projectPath flag envs n s)"
proof (induction envs arbitrary: n s)
  case Nil
  then show ?case by simp
next
  case (Cons env envs)
  have step: "\<And>added s'. clean E s' \<Longrightarrow>
      post (\<lambda>a. clean E) (clean E) (endedBy E) (clean E)
        (updateFiles E projectPath flag envs (if added then n + 1 else n)
           (s'\<lparr>outcomes := outcomes s' @ [(pathJoin (pathJoin projectPath env) ''values.yaml'', added)]\<rparr>))"
    by (rule Cons.IH) (simp add: clean_def)
  from Cons.prems show ?case
    by (auto intro!: cmd_andThen cmd_fs cmd_addFeatureFlagToFile step simp: Let_def)
qed

lemma cmd_askEnvTypeFrom:
  "clean E s \<Longrightarrow> post (\<lambda>a. clean E) (clean E) (endedBy E) (clean E) (askEnvTypeFrom ls s)"
proof (induction ls arbitrary: s)
  case Nil
  then show ?case by (simp add: cmd_askQuestion)
next
  case (Cons l ls)
  then show ?case
    by (auto intro!: cmd_andThen cmd_askQuestion)
qed

lemma cmd_restoreOriginal:
  "clean E s \<Longrightarrow> post (\<lambda>a. clean E) (clean E) (endedBy E) (clean E) (restoreOriginal E s)"
  unfolding restoreOriginal_def
  by (auto intro!: cmd_andThen cmd_executeCommand split: option.splits)

lemma cmd_publish:
  "clean E s \<Longrightarrow> post (\<lambda>a. clean E) (clean E) (endedBy E) (clean E)
      (publish E flag project envType branchName n s)"
  unfolding publish_def
  by (auto intro!: cmd_andThen cmd_tryCatch cmd_executeCommand cmd_restoreOriginal
      simp: endedBy_def)

lemma cmd_workflow:
  "clean E s \<Longrightarrow> post (\<lambda>a. clean E) (clean E) (endedBy E) (clean E)
      (workflow E flag project envType s)"
  unfolding workflow_def
  by (auto intro!: cmd_andThen cmd_executeCommand cmd_updateFiles cmd_publish simp: Let_def)

lemma cmd_tryBody:
  "clean E s \<Longrightarrow> post (\<lambda>a. clean E) (clean E) (endedBy E) (clean E) (tryBody E s)"
  unfolding tryBody_def getCurrentBranch_def hasUncommittedChanges_def askEnvType_def
  by (auto intro!: cmd_andThen cmd_tryCatch cmd_executeCommand cmd_askQuestion
      cmd_askEnvTypeFrom cmd_workflow
      simp: endedBy_def clean_def split: option.splits)

lemma cmd_handler:
  assumes "clean E s"
  shows "post (\<lambda>a. clean E) (\<lambda>s. False) (endedBy E) (clean E)
     (andThen (tryCatch (restoreOriginal E s) (\<lambda>restoreError s. Return () s)) (\<lambda>_ s. Exit 1 s))"
proof -
  have "post (\<lambda>a. clean E) (clean E) (endedBy E) (clean E) (restoreOriginal E s)"
    using assms by (rule cmd_restoreOriginal)
  then show ?thesis
    by (cases "restoreOriginal E s") (simp_all add: endedBy_def)
qed

lemma cmd_main:
  assumes "clean E s"
  shows "post (\<lambda>a. clean E) (\<lambda>s. False) (endedBy E) (clean E) (main E s)"
proof -
  let ?s = "s\<lparr>originalBranch := None, stashCreated := False\<rparr>"
  have "clean E ?s" using assms by (simp add: clean_def)
  then have "post (\<lambda>a. clean E) (clean E) (endedBy E) (clean E) (tryBody E ?s)"
    by (rule cmd_tryBody)
  then show ?thesis
  proof (cases "tryBody E ?s")
    case (Throw e s')
    with \<open>post (\<lambda>a. clean E) (clean E) (endedBy E) (clean E) (tryBody E ?s)\<close>
    have "clean E s'" by simp
    then have "post (\<lambda>a. clean E) (\<lambda>s. False) (endedBy E) (clean E)
     (andThen (tryCatch (restoreOriginal E s') (\<lambda>restoreError s. Return () s)) (\<lambda>_ s. Exit 1 s))"
      by (rule cmd_handler)
    with Throw show ?thesis unfolding main_def by (simp del: One_nat_def)
  qed (simp_all add: main_def)
qed

lemma pull_failure_evaluation:
  "main pullFails checkout
   = Exit 1 (checkout\<lparr>branch := ''master'', uncommitted := [], stashes := [[''README.md'']],
        stdin := [], originalBranch := Some ''feature'', stashCreated := True,
        executed := [GitRevParseHead, GitStatusPorcelain, GitStashPush, GitFetchOrigin,
          GitCheckout ''master'', GitPullOriginMaster],
        asked := [(''What is the feature flag name to create? '', ''FEATURE_X''),
          (''What project is this for? '', ''svc-a''),
          (envTypeQuestion, ''non-prod''),
          (''Proceed with these settings? (y/n) '', ''y'')]\<rparr>)"
  by (simp add: run_defs pullFails_def quietEnv_def checkout_def
      cong: andThen_weak_cong tryCatch_weak_cong)

lemma ended_result:
  assumes p: "post (\<lambda>a. clean E) (\<lambda>s. False) (endedBy E) (clean E) r"
    and i: "i < length (executed (state_of r))"
    and fails: "cmd_fails E i (executed (state_of r) ! i)"
  shows "r = Exit 1 (state_of r) \<and> Suc i = length (executed (state_of r))
         \<and> (\<forall>j<i. \<not> cmd_fails E j (executed (state_of r) ! j))"
proof -
  have dirty: "\<not> clean E (state_of r)"
    using i fails by (auto simp: clean_def)
  show ?thesis
  proof (cases r)
    case (Return a s)
    with p dirty show ?thesis by simp
  next
    case (Throw e s)
    with p show ?thesis by simp
  next
    case (Pending s)
    with p dirty show ?thesis by simp
  next
    case (Exit n s)
    with p dirty have n: "n = 1" and fl: "failedLast E s" by (simp_all add: endedBy_def)
    from i fails Exit have i': "i < length (executed s)" and f': "cmd_fails E i (executed s ! i)"
      by simp_all
    have "\<not> i < length (executed s) - 1"
      using fl f' by (auto simp: failedLast_def)
    with i' have last: "Suc i = length (executed s)" by arith
    moreover from fl last have "\<forall>j<i. \<not> cmd_fails E j (executed s ! j)"
      by (auto simp: failedLast_def)
    ultimately show ?thesis using Exit n by simp
  qed
qed

text \<open>
  C10. A run of \<open>main\<close> starts with no command executed. If any command the run executes
  fails, the result of \<open>main\<close> is \<open>process.exit(1)\<close>, the failing command is the last
  one executed (so neither the rest of the try block nor the catch block's restoration
  ran a command), and no command before it failed. The exception that \<open>execSync\<close>
  raises never leaves \<open>executeCommand\<close>: its result is \<open>Exit 1\<close>, never \<open>Throw\<close>.
\<close>

theorem command_failure_ends_process:
  assumes start: "executed w = []"
    and i: "i < length (executed (state_of (main E w)))"
    and fails: "cmd_fails E i (executed (state_of (main E w)) ! i)"
  shows "main E w = Exit 1 (state_of (main E w))
         \<and> Suc i = length (executed (state_of (main E w)))
         \<and> (\<forall>j<i. \<not> cmd_fails E j (executed (state_of (main E w)) ! j))
         \<and> (\<forall>c s. cmd_fails E (length (executed s)) c
               \<longrightarrow> executeCommand E c s = Exit 1 (s\<lparr>executed := executed s @ [c]\<rparr>))"
proof -
  have "clean E w" using start by (simp add: clean_def)
  then have "post (\<lambda>a. clean E) (\<lambda>s. False) (endedBy E) (clean E) (main E w)"
    by (rule cmd_main)
  then have run: "main E w = Exit 1 (state_of (main E w))
         \<and> Suc i = length (executed (state_of (main E w)))
         \<and> (\<forall>j<i. \<not> cmd_fails E j (executed (state_of (main E w)) ! j))"
    using i fails by (rule ended_result)
  have "\<forall>c s. cmd_fails E (length (executed s)) c
          \<longrightarrow> executeCommand E c s = Exit 1 (s\<lparr>executed := executed s @ [c]\<rparr>)"
    by (simp add: executeCommand_def)
  with run show ?thesis by blast
qed

theorem command_failure_ends_process_witness:
  "executed checkout = []
   \<and> cmd_fails pullFails 5 GitPullOriginMaster
   \<and> exitCode (main pullFails checkout) = Some 1
   \<and> length (executed (state_of (main pullFails checkout))) = 6"
proof -
  have ex: "executed (state_of (main pullFails checkout))
      = [GitRevParseHead, GitStatusPorcelain, GitStashPush, GitFetchOrigin,
         GitCheckout ''master'', GitPullOriginMaster]"
    by (simp add: pull_failure_evaluation)
  have h1: "executed checkout = []" by (simp add: checkout_def)
  have h2: "5 < length (executed (state_of (main pullFails checkout)))" by (simp add: ex)
  have h3: "cmd_fails pullFails 5 (executed (state_of (main pullFails checkout)) ! 5)"
    unfolding ex by (simp add: pullFails_def)
  have r: "main pullFails checkout = Exit 1 (state_of (main pullFails checkout))
        \<and> Suc 5 = length (executed (state_of (main pullFails checkout)))"
    using command_failure_ends_process [OF h1 h2 h3] by blast
  from r have "exitCode (main pullFails checkout) = Some 1"
    by (metis exitCode.simps(2))
  moreover from r have "length (executed (state_of (main pullFails checkout))) = 6"
    by simp
  moreover have "cmd_fails pullFails 5 GitPullOriginMaster" by (simp add: pullFails_def)
  ultimately show ?thesis using h1 by simp
qed

text \<open>
  C1. On a checkout on branch \<open>feature\<close> with an uncommitted change, a failing
  \<open>git pull origin master\<close> (step 2) ends the process with code 1 while the working
  copy is on \<open>master\<close> and the change is still in the stash: the catch block that would
  check out \<open>feature\<close> and pop the stash is never entered.
\<close>

theorem pull_failure_leaves_workspace_unrestored:
  "exitCode (main pullFails checkout) = Some 1
   \<and> branch checkout = ''feature''
   \<and> branch (state_of (main pullFails checkout)) = ''master''
   \<and> uncommitted checkout = [''README.md'']
   \<and> uncommitted (state_of (main pullFails checkout)) = []
   \<and> stashes (state_of (main pullFails checkout)) = [[''README.md'']]
   \<and> executed (state_of (main pullFails checkout))
       = [GitRevParseHead, GitStatusPorcelain, GitStashPush, GitFetchOrigin,
          GitCheckout ''master'', GitPullOriginMaster]"
  by (simp add: pull_failure_evaluation) (simp add: checkout_def)

section \<open>The bulk script's scripted answers\<close>

text \<open>
  C3. The bulk script writes the lines operation, flag name, project, environment type
  and \<open>y\<close> to the child's input and ends it. The single-project script has no question
  for the operation: its first question, for the flag name, takes the operation. The
  other four lines arrive in the same chunk and are lost, the question for the project
  finds the input ended, and the child ends with status 0 after the three commands of
  the capture: the change it stashed stays in the stash.
\<close>

theorem bulk_operation_answers_flag_question:
  "bulkMain quietEnv [''add'', ''FEATURE_X'', ''non-prod'', ''svc-a''] checkout
   = Inr [(''svc-a'',
       Exit 0 (checkout\<lparr>uncommitted := [], stashes := [[''README.md'']],
         stdin := [], stdinEnds := True, originalBranch := Some ''feature'',
         stashCreated := True,
         executed := [GitRevParseHead, GitStatusPorcelain, GitStashPush],
         asked := [(''What is the feature flag name to create? '', ''add'')]\<rparr>))]"
  by (simp add: bulkMain_def run_defs quietEnv_def checkout_def
      cong: andThen_weak_cong tryCatch_weak_cong)

text \<open>
  X4. A child of the bulk script creates no branch and publishes nothing, whatever the
  arguments, the checkout and the commands that fail: its input is one chunk, so at
  most one question is answered before the input is found ended.
\<close>

theorem bulk_child_creates_no_branch:
  "unstarted (state_of (runChild E operation flag project envType s))"
  by (simp add: runChild_def scriptedInput_def piped_def main_def tryBody_def
      getCurrentBranch_def hasUncommittedChanges_def executeCommand_def askQuestion_def
      restoreOriginal_def unstarted_def branched_def published_def Let_def
      split: option.splits)

section \<open>Rules for one invariant\<close>




section \<open>The topic branch\<close>






lemma digits_not_Nil [simp]: "digits n \<noteq> []" "[] \<noteq> digits n"
  by (subst digits.simps, simp)+


























section \<open>Runs that change nothing\<close>



















lemma unstarted_update [simp]:
  "unstarted (s\<lparr>originalBranch := b\<rparr>) = unstarted s"
  "unstarted (s\<lparr>stashCreated := c\<rparr>) = unstarted s"
  by (simp_all add: unstarted_def published_def branched_def)










section \<open>Further properties of adding a flag\<close>

text \<open>
  When some line of a readable file declares \<open>flagName:\<close>, the call is a skip: it returns
  false and leaves the state as it was. (The converse is what fails in C5.)
\<close>

theorem add_skips_declared_flag:
  assumes f: "files s filePath = Some content" and io: "\<not> io_fails E filePath"
    and d: "list_ex (declaresFlag flag) (linesOf content)"
  shows "addFeatureFlagToFile E filePath flag s = Return False s"
proof -
  have "str_includes content (flag @ '':'')"
  proof (rule ccontr)
    assume "\<not> str_includes content (flag @ '':'')"
    then have "\<forall>l\<in>set (linesOf content). \<not> declaresFlag flag l" by (rule no_line_declares)
    with d show False by (simp add: list_ex_iff)
  qed
  moreover have "existsSync s filePath" using f by (auto simp: existsSync_def)
  moreover have "readFileSync E filePath s = Return content s"
    using f io by (simp add: readFileSync_def)
  ultimately show ?thesis by (simp add: addFeatureFlagToFile_def)
qed

theorem add_skips_declared_flag_witness:
  "list_ex (declaresFlag ''FEATURE_X'') (linesOf ''FEATURE_X: true\<newline>'')
   \<and> addFeatureFlagToFile quietEnv ''v2/applications/svc-a/stage/values.yaml'' ''FEATURE_X'' checkout
       = Return False checkout"
  using add_skips_declared_flag [where s = checkout
      and filePath = "''v2/applications/svc-a/stage/values.yaml''"
      and content = "''FEATURE_X: true\<newline>''" and E = quietEnv and flag = "''FEATURE_X''"]
  by (simp add: checkout_def quietEnv_def linesOf_def declaresFlag_def isWhiteSpace_def)

lemma includes_appended: "str_includes (a @ flag @ '': true\<newline>'') (flag @ '':'')"
proof -
  have "a @ flag @ '': true\<newline>'' = a @ (flag @ '':'') @ '' true\<newline>''" by simp
  then show ?thesis unfolding str_includes_iff by blast
qed

text \<open>
  Idempotence: after a call that added the flag, a second call with the same flag is a
  skip, so the file holds what the first call wrote.
\<close>

theorem add_twice:
  assumes "addFeatureFlagToFile E filePath flag s = Return True s1"
  shows "addFeatureFlagToFile E filePath flag s1 = Return False s1"
proof -
  from assms have ex: "existsSync s filePath"
    by (auto simp: addFeatureFlagToFile_def split: if_splits)
  from assms ex obtain content where rd: "readFileSync E filePath s = Return content s"
    by (cases "readFileSync E filePath s")
      (auto simp: addFeatureFlagToFile_def readFileSync_def split: if_splits option.splits)
  then have io: "\<not> io_fails E filePath"
    by (auto simp: readFileSync_def split: if_splits)
  from assms ex rd have ni: "\<not> str_includes content (flag @ '':'')"
    by (auto simp: addFeatureFlagToFile_def split: if_splits)
  have "\<exists>a. s1 = written filePath (a @ flag @ '': true\<newline>'') s"
  proof (cases "trim content = [] \<or> \<not> str_includes content '':''")
    case True
    with assms ex rd ni have "s1 = written filePath (header @ flag @ '': true\<newline>'') s"
      by (auto simp: addFeatureFlagToFile_def writeFileSync_def split: if_splits)
    then show ?thesis by blast
  next
    case False
    show ?thesis
    proof (cases "endsWith content ''\<newline>''")
      case True
      with False assms ex rd ni have "s1 = written filePath (content @ flag @ '': true\<newline>'') s"
        by (auto simp: addFeatureFlagToFile_def writeFileSync_def split: if_splits)
      then show ?thesis by blast
    next
      case nt: False
      with False assms ex rd ni
      have "s1 = written filePath ((content @ ''\<newline>'') @ flag @ '': true\<newline>'') s"
        by (auto simp: addFeatureFlagToFile_def writeFileSync_def split: if_splits)
      then show ?thesis by blast
    qed
  qed
  then obtain a where s1: "s1 = written filePath (a @ flag @ '': true\<newline>'') s" by blast
  then have f1: "files s1 filePath = Some (a @ flag @ '': true\<newline>'')"
    by (simp add: written_def)
  then have "existsSync s1 filePath" by (auto simp: existsSync_def)
  moreover have "readFileSync E filePath s1 = Return (a @ flag @ '': true\<newline>'') s1"
    using f1 io by (simp add: readFileSync_def)
  ultimately show ?thesis
    by (simp add: addFeatureFlagToFile_def includes_appended)
qed

theorem add_twice_witness:
  "addFeatureFlagToFile quietEnv ''v2/applications/svc-a/main/values.yaml'' ''FEATURE_X'' checkout
     = Return True (written ''v2/applications/svc-a/main/values.yaml''
         ''# Feature flags for this environment\<newline>FEATURE_X: true\<newline>'' checkout)
   \<and> addFeatureFlagToFile quietEnv ''v2/applications/svc-a/main/values.yaml'' ''FEATURE_X''
        (written ''v2/applications/svc-a/main/values.yaml''
           ''# Feature flags for this environment\<newline>FEATURE_X: true\<newline>'' checkout)
     = Return False (written ''v2/applications/svc-a/main/values.yaml''
         ''# Feature flags for this environment\<newline>FEATURE_X: true\<newline>'' checkout)"
proof -
  have first: "addFeatureFlagToFile quietEnv ''v2/applications/svc-a/main/values.yaml''
       ''FEATURE_X'' checkout
     = Return True (written ''v2/applications/svc-a/main/values.yaml''
         ''# Feature flags for this environment\<newline>FEATURE_X: true\<newline>'' checkout)"
    by (simp add: addFeatureFlagToFile_def existsSync_def readFileSync_def writeFileSync_def
        checkout_def quietEnv_def header_def trim_def)
  from add_twice [OF first] first show ?thesis by blast
qed

section \<open>Restoration after a thrown error\<close>

text \<open>
  What the catch block does when it is entered: if the try block throws (a file-system
  call raised), the original branch was recorded and is neither empty nor \<open>master\<close>, a
  stash was created, and the two restoring commands succeed, then the run ends with
  exit code 1 on the original branch with the stashed changes back in the working tree.
\<close>

theorem thrown_error_restores:
  assumes body: "tryBody E (w\<lparr>originalBranch := None, stashCreated := False\<rparr>) = Throw e s1"
    and ob: "originalBranch s1 = Some b" and b: "b \<noteq> []" "b \<noteq> ''master''"
    and st: "stashCreated s1" "stashes s1 = entry # rest"
    and ok1: "\<not> cmd_fails E (length (executed s1)) (GitCheckout b)"
    and ok2: "\<not> cmd_fails E (Suc (length (executed s1))) GitStashPop"
  shows "main E w
         = Exit 1 (s1\<lparr>branch := b, stashes := rest, uncommitted := entry @ uncommitted s1,
                      executed := executed s1 @ [GitCheckout b, GitStashPop]\<rparr>)"
  using assms
  by (simp add: main_def restoreOriginal_def shouldCheckout_def executeCommand_def)

lemma write_failure_body:
  "tryBody writeFails (checkout\<lparr>originalBranch := None, stashCreated := False\<rparr>)
   = Throw ''EIO'' (checkout\<lparr>branch := ''add-FEATURE_X-svc-a-non-prod-1700000000000'',
        uncommitted := [], stashes := [[''README.md'']],
        stdin := [], originalBranch := Some ''feature'', stashCreated := True,
        executed := [GitRevParseHead, GitStatusPorcelain, GitStashPush, GitFetchOrigin,
          GitCheckout ''master'', GitPullOriginMaster,
          GitCheckoutNew ''add-FEATURE_X-svc-a-non-prod-1700000000000''],
        asked := [(''What is the feature flag name to create? '', ''FEATURE_X''),
          (''What project is this for? '', ''svc-a''),
          (envTypeQuestion, ''non-prod''),
          (''Proceed with these settings? (y/n) '', ''y'')]\<rparr>)"
  by (simp add: run_defs Let_def writeFails_def quietEnv_def checkout_def digits.simps digitChar_def
      cong: andThen_weak_cong tryCatch_weak_cong)

theorem thrown_error_restores_witness:
  "branch (state_of (main writeFails checkout)) = ''feature''
   \<and> uncommitted (state_of (main writeFails checkout)) = [''README.md'']
   \<and> stashes (state_of (main writeFails checkout)) = []
   \<and> exitCode (main writeFails checkout) = Some 1"
proof -
  let ?s1 = "checkout\<lparr>branch := ''add-FEATURE_X-svc-a-non-prod-1700000000000'',
        uncommitted := [], stashes := [[''README.md'']],
        stdin := [], originalBranch := Some ''feature'', stashCreated := True,
        executed := [GitRevParseHead, GitStatusPorcelain, GitStashPush, GitFetchOrigin,
          GitCheckout ''master'', GitPullOriginMaster,
          GitCheckoutNew ''add-FEATURE_X-svc-a-non-prod-1700000000000''],
        asked := [(''What is the feature flag name to create? '', ''FEATURE_X''),
          (''What project is this for? '', ''svc-a''),
          (envTypeQuestion, ''non-prod''),
          (''Proceed with these settings? (y/n) '', ''y'')]\<rparr>"
  have "main writeFails checkout
      = Exit 1 (?s1\<lparr>branch := ''feature'', stashes := [],
                  uncommitted := [''README.md''] @ uncommitted ?s1,
                  executed := executed ?s1 @ [GitCheckout ''feature'', GitStashPop]\<rparr>)"
    by (rule thrown_error_restores [OF write_failure_body])
      (simp_all add: writeFails_def quietEnv_def)
  then show ?thesis by simp
qed

end
